theory Spec2Isabelle
  imports Main "HOL-Library.Word" "HOL-Library.Signed_Division"
begin

unbundle bit_operations_syntax

section \<open>Machine types and sentinels (TinyGPS.h)\<close>

text \<open>
  The integer widths are those of the 32-bit Arduino targets the library is distributed
  for: \<^verbatim>\<open>char\<close>, \<^verbatim>\<open>byte\<close> and \<^verbatim>\<open>uint8_t\<close> have 8 bits,
  \<^verbatim>\<open>unsigned short\<close> has 16, and \<^verbatim>\<open>int\<close>, \<^verbatim>\<open>unsigned\<close>,
  \<^verbatim>\<open>long\<close>, \<^verbatim>\<open>unsigned long\<close> and \<^verbatim>\<open>uint32_t\<close> have 32. Plain
  \<^verbatim>\<open>char\<close> is unsigned. Signed and unsigned values of one width share a word type;
  arithmetic wraps around, and a comparison or division is written for the signedness the
  source has at that place.
\<close>

type_synonym u8 = "8 word"
type_synonym u16 = "16 word"
type_synonym u32 = "32 word"

definition GPS_INVALID_AGE :: u32 where "GPS_INVALID_AGE = 0xFFFFFFFF"
definition GPS_INVALID_ANGLE :: u32 where "GPS_INVALID_ANGLE = 999999999"
definition GPS_INVALID_ALTITUDE :: u32 where "GPS_INVALID_ALTITUDE = 999999999"
definition GPS_INVALID_DATE :: u32 where "GPS_INVALID_DATE = 0"
definition GPS_INVALID_TIME :: u32 where "GPS_INVALID_TIME = 0xFFFFFFFF"
definition GPS_INVALID_SPEED :: u32 where "GPS_INVALID_SPEED = 999999999"
definition GPS_INVALID_FIX_TIME :: u32 where "GPS_INVALID_FIX_TIME = 0xFFFFFFFF"
definition GPS_INVALID_SATELLITES :: u16 where "GPS_INVALID_SATELLITES = 0xFF"
definition GPS_INVALID_HDOP :: u32 where "GPS_INVALID_HDOP = 0xFFFFFFFF"

text \<open>The sentence tag held in \<^verbatim>\<open>_sentence_type\<close>, with the value the enum gives it.\<close>

datatype sentence =
    GPS_SENTENCE_GPGGA | GPS_SENTENCE_GPRMC | GPS_SENTENCE_GNGNS | GPS_SENTENCE_GNGSA
  | GPS_SENTENCE_GPGSV | GPS_SENTENCE_GLGSV | GPS_SENTENCE_GPZDA | GPS_SENTENCE_PUBX
  | GPS_SENTENCE_OTHER

fun sentence_code :: "sentence \<Rightarrow> u32" where
  "sentence_code GPS_SENTENCE_GPGGA = 0"
| "sentence_code GPS_SENTENCE_GPRMC = 1"
| "sentence_code GPS_SENTENCE_GNGNS = 2"
| "sentence_code GPS_SENTENCE_GNGSA = 3"
| "sentence_code GPS_SENTENCE_GPGSV = 4"
| "sentence_code GPS_SENTENCE_GLGSV = 5"
| "sentence_code GPS_SENTENCE_GPZDA = 6"
| "sentence_code GPS_SENTENCE_PUBX = 7"
| "sentence_code GPS_SENTENCE_OTHER = 8"

section \<open>The object's members\<close>

text \<open>
  The members of class \<^verbatim>\<open>TinyGPS\<close>, under their own names without the leading
  underscore, grouped as the header groups them: the published fix, its staged
  \<^verbatim>\<open>_new_\<close> copies, the parsing state, the satellite tracking members and the statistics.
  The arrays \<^verbatim>\<open>_term[15]\<close>, \<^verbatim>\<open>_constellations[6]\<close> and
  \<^verbatim>\<open>tracked_sat_rec[24]\<close> are lists of that length.
\<close>

record fix_state =
  time :: u32
  date :: u32
  latitude :: u32
  longitude :: u32
  altitude :: u32
  speed :: u32
  course :: u32
  hdop :: u32
  numsats :: u16
  last_time_fix :: u32
  last_position_fix :: u32
  year :: u32
  month :: u32
  day :: u32
  last_date_fix :: u32

record staging_state =
  new_time :: u32
  new_date :: u32
  new_latitude :: u32
  new_longitude :: u32
  new_altitude :: u32
  new_speed :: u32
  new_course :: u32
  new_hdop :: u32
  new_numsats :: u16
  new_time_fix :: u32
  new_position_fix :: u32
  new_year :: u32
  new_month :: u32
  new_day :: u32
  new_date_fix :: u32

record cursor_state =
  parity :: u8
  is_checksum_term :: bool
  term_buf :: "u8 list"
  sentence_type :: sentence
  UBX_message_type :: u32
  term_number :: u8
  term_offset :: u8
  gps_data_good :: bool

record sat_state =
  constellations :: "u8 list"
  sat_used_count :: u8
  tracked_sat_rec :: "u32 list"
  tracked_satellites_index :: u32
  sat_index :: u8

record stats_state =
  encoded_characters :: u32
  good_sentences :: u16
  failed_checksum :: u16
  passed_checksum :: u16

record tinygps =
  Fix :: fix_state
  Staging :: staging_state
  Cursor :: cursor_state
  Sats :: sat_state
  Stats :: stats_state

text \<open>
  The constructor initialises the published fix, the parsing state, three of the four
  counters and \<^verbatim>\<open>_term[0]\<close>. Every other member keeps whatever the object's memory
  held, so the constructor is a function of that memory \<open>m\<close>.
\<close>

definition TinyGPS :: "tinygps \<Rightarrow> tinygps" where
  "TinyGPS m =
     m\<lparr>Fix := \<lparr>time = GPS_INVALID_TIME, date = GPS_INVALID_DATE,
              latitude = GPS_INVALID_ANGLE, longitude = GPS_INVALID_ANGLE,
              altitude = GPS_INVALID_ALTITUDE, speed = GPS_INVALID_SPEED,
              course = GPS_INVALID_ANGLE, hdop = GPS_INVALID_HDOP,
              numsats = GPS_INVALID_SATELLITES,
              last_time_fix = GPS_INVALID_FIX_TIME,
              last_position_fix = GPS_INVALID_FIX_TIME,
              year = GPS_INVALID_DATE, month = GPS_INVALID_DATE, day = GPS_INVALID_DATE,
              last_date_fix = GPS_INVALID_FIX_TIME\<rparr>,
       Cursor := (Cursor m)\<lparr>parity := 0, is_checksum_term := False,
              sentence_type := GPS_SENTENCE_OTHER, UBX_message_type := 0,
              term_number := 0, term_offset := 0, gps_data_good := False,
              term_buf := (term_buf (Cursor m))[0 := 0]\<rparr>,
       Stats := (Stats m)\<lparr>encoded_characters := 0, good_sentences := 0,
              failed_checksum := 0\<rparr>\<rparr>"

text \<open>An object memory that held zeros before construction, for concrete runs.\<close>

definition zero_memory :: tinygps where
  "zero_memory =
     \<lparr>Fix = \<lparr>time = 0, date = 0, latitude = 0, longitude = 0, altitude = 0, speed = 0,
             course = 0, hdop = 0, numsats = 0, last_time_fix = 0, last_position_fix = 0,
             year = 0, month = 0, day = 0, last_date_fix = 0\<rparr>,
      Staging = \<lparr>new_time = 0, new_date = 0, new_latitude = 0, new_longitude = 0,
             new_altitude = 0, new_speed = 0, new_course = 0, new_hdop = 0, new_numsats = 0,
             new_time_fix = 0, new_position_fix = 0, new_year = 0, new_month = 0,
             new_day = 0, new_date_fix = 0\<rparr>,
      Cursor = \<lparr>parity = 0, is_checksum_term = False, term_buf = [0, 0, 0, 0, 0, 0, 0, 0, 0, 0, 0, 0, 0, 0, 0],
             sentence_type = GPS_SENTENCE_GPGGA, UBX_message_type = 0, term_number = 0,
             term_offset = 0, gps_data_good = False\<rparr>,
      Sats = \<lparr>constellations = [0, 0, 0, 0, 0, 0], sat_used_count = 0,
             tracked_sat_rec = [0, 0, 0, 0, 0, 0, 0, 0, 0, 0, 0, 0,
                                0, 0, 0, 0, 0, 0, 0, 0, 0, 0, 0, 0], tracked_satellites_index = 0,
             sat_index = 0\<rparr>,
      Stats = \<lparr>encoded_characters = 0, good_sentences = 0, failed_checksum = 0,
             passed_checksum = 0\<rparr>\<rparr>"

section \<open>Internal utilities\<close>

text \<open>
  A \<^verbatim>\<open>char *\<close> argument is the list of characters before the first NUL of the array
  it points into; reading at the end of that list reads the NUL.
\<close>

definition c_str :: "u8 list \<Rightarrow> u8 list" where
  "c_str buf = takeWhile (\<lambda>c. c \<noteq> 0) buf"

definition bytes :: "string \<Rightarrow> u8 list" where
  "bytes s = map of_char s"

definition gpsisdigit :: "u8 \<Rightarrow> bool" where
  "gpsisdigit c \<longleftrightarrow> 0x30 \<le> c \<and> c \<le> 0x39"

definition from_hex :: "u8 \<Rightarrow> u32" where
  "from_hex a =
     (if 0x41 \<le> a \<and> a \<le> 0x46 then ucast a - 0x41 + 10
      else if 0x61 \<le> a \<and> a \<le> 0x66 then ucast a - 0x61 + 10
      else ucast a - 0x30)"

fun gpsatol_loop :: "u8 list \<Rightarrow> u32 \<Rightarrow> u32" where
  "gpsatol_loop [] ret = ret"
| "gpsatol_loop (c # str) ret =
     (if gpsisdigit c then gpsatol_loop str (10 * ret + ucast c - 0x30) else ret)"

definition gpsatol :: "u8 list \<Rightarrow> u32" where
  "gpsatol str = gpsatol_loop str 0"

fun gpsstrcmp :: "u8 list \<Rightarrow> u8 list \<Rightarrow> u8" where
  "gpsstrcmp [] str2 = 0"
| "gpsstrcmp (c # str1) [] = c"
| "gpsstrcmp (c # str1) (d # str2) = (if c = d then gpsstrcmp str1 str2 else c)"

definition parse_decimal :: "u8 list \<Rightarrow> u32" where
  "parse_decimal t =
     (let isneg = (t \<noteq> [] \<and> hd t = 0x2D);
          p = (if isneg then tl t else t);
          ret = 100 * gpsatol p;
          q = dropWhile gpsisdigit p;
          ret' = (case q of
                    c # d1 # r \<Rightarrow>
                      if c = 0x2E \<and> gpsisdigit d1
                      then ret + 10 * (ucast d1 - 0x30)
                             + (case r of
                                  d2 # _ \<Rightarrow> if gpsisdigit d2 then ucast d2 - 0x30 else 0
                                | [] \<Rightarrow> 0)
                      else ret
                  | _ \<Rightarrow> ret)
      in if isneg then - ret' else ret')"

fun degrees_loop :: "u8 list \<Rightarrow> u32 \<Rightarrow> u32 \<Rightarrow> u32" where
  "degrees_loop [] mult h = h"
| "degrees_loop (c # p) mult h =
     (if gpsisdigit c then degrees_loop p (mult div 10) (h + mult * (ucast c - 0x30))
      else h)"

definition parse_degrees :: "u8 list \<Rightarrow> u32" where
  "parse_degrees t =
     (let left_of_decimal = gpsatol t;
          hundred1000ths_of_minute = (left_of_decimal mod 100) * 100000;
          p = dropWhile gpsisdigit t;
          h = (case p of
                 c # r \<Rightarrow> if c = 0x2E then degrees_loop r 10000 hundred1000ths_of_minute
                          else hundred1000ths_of_minute
               | [] \<Rightarrow> hundred1000ths_of_minute)
      in (left_of_decimal div 100) * 1000000 + (h + 3) div 6)"

text \<open>
  Modelled from the spec: the C library's \<^verbatim>\<open>atoi\<close> and \<^verbatim>\<open>strncpy\<close> are
  not part of the repository. \<^verbatim>\<open>atoi\<close> follows its contract as
  \<^verbatim>\<open>(int)strtol(s, NULL, 10)\<close>: leading white space, an optional sign, decimal digits,
  and a value outside \<^verbatim>\<open>long\<close> clamped to its nearest bound. \<^verbatim>\<open>strncpy\<close> writes
  exactly \<open>n\<close> characters, NULs once the source string has ended.
\<close>

definition isspace :: "u8 \<Rightarrow> bool" where
  "isspace c \<longleftrightarrow> c = 0x20 \<or> (0x09 \<le> c \<and> c \<le> 0x0D)"

fun atoi_digits :: "u8 list \<Rightarrow> int \<Rightarrow> int" where
  "atoi_digits [] acc = acc"
| "atoi_digits (c # s) acc =
     (if 0x30 \<le> c \<and> c \<le> 0x39 then atoi_digits s (10 * acc + (uint c - 48)) else acc)"

definition atoi :: "u8 list \<Rightarrow> u32" where
  "atoi s0 =
     (let s = dropWhile isspace s0;
          neg = (s \<noteq> [] \<and> hd s = 0x2D);
          d = (if s \<noteq> [] \<and> (hd s = 0x2D \<or> hd s = 0x2B) then tl s else s);
          v = atoi_digits d 0
      in if neg then word_of_int (max (- 2147483648) (- v))
         else word_of_int (min 2147483647 v))"

definition strncpy :: "u8 list \<Rightarrow> u8 list \<Rightarrow> nat \<Rightarrow> u8 list" where
  "strncpy dest src n =
     fold (\<lambda>i d. d[i := (if i < length src then src ! i else 0)]) [0..<n] dest"

section \<open>Sentence tags and the dispatch key\<close>

definition GPRMC_TERM :: "u8 list" where "GPRMC_TERM = bytes ''GPRMC''"
definition GPGGA_TERM :: "u8 list" where "GPGGA_TERM = bytes ''GPGGA''"
definition GPGSA_TERM :: "u8 list" where "GPGSA_TERM = bytes ''GPGSA''"
definition GNRMC_TERM :: "u8 list" where "GNRMC_TERM = bytes ''GNRMC''"
definition GNGNS_TERM :: "u8 list" where "GNGNS_TERM = bytes ''GNGNS''"
definition GNGSA_TERM :: "u8 list" where "GNGSA_TERM = bytes ''GNGSA''"
definition GPGSV_TERM :: "u8 list" where "GPGSV_TERM = bytes ''GPGSV''"
definition GLGSV_TERM :: "u8 list" where "GLGSV_TERM = bytes ''GLGSV''"
definition GPZDA_TERM :: "u8 list" where "GPZDA_TERM = bytes ''GPZDA''"
definition PUBX_TERM :: "u8 list" where "PUBX_TERM = bytes ''PUBX''"

definition COMBINE :: "u32 \<Rightarrow> u32 \<Rightarrow> u32" where
  "COMBINE st tn = push_bit 5 st OR tn"

definition UBX_MESSAGE :: "u32 \<Rightarrow> u32" where
  "UBX_MESSAGE message_type = push_bit 5 (sentence_code GPS_SENTENCE_PUBX) OR message_type"

text \<open>The case labels of the switch, by the sentence tag they name.\<close>

definition label :: "sentence \<Rightarrow> u32 \<Rightarrow> u32" where
  "label st n = COMBINE (sentence_code st) n"

definition ubx_label :: "u32 \<Rightarrow> u32 \<Rightarrow> u32" where
  "ubx_label message_type n = COMBINE (UBX_MESSAGE message_type) n"

section \<open>term_complete\<close>

text \<open>
  A write to \<^verbatim>\<open>tracked_sat_rec\<close> outside its 24 entries has no defined behaviour in
  the source; the model stops with a fault that carries the index.
\<close>

datatype fault = OutOfBounds int

definition store_sat :: "int \<Rightarrow> u32 \<Rightarrow> u32 list \<Rightarrow> fault + u32 list" where
  "store_sat i v rec = (if 0 \<le> i \<and> i < 24 then Inr (rec[nat i := v]) else Inl (OutOfBounds i))"

definition clear_slots :: "nat \<Rightarrow> nat \<Rightarrow> u32 list \<Rightarrow> u32 list" where
  "clear_slots lo hi rec = fold (\<lambda>x r. r[x := 0]) [lo..<hi] rec"

text \<open>The first term of a sentence names its type (lines 300-321).\<close>

definition sentence_of_term :: "u8 list \<Rightarrow> sentence" where
  "sentence_of_term t =
     (if gpsstrcmp t GPRMC_TERM = 0 \<or> gpsstrcmp t GNRMC_TERM = 0 then GPS_SENTENCE_GPRMC
      else if gpsstrcmp t GPGGA_TERM = 0 then GPS_SENTENCE_GPGGA
      else if gpsstrcmp t GNGNS_TERM = 0 then GPS_SENTENCE_GNGNS
      else if gpsstrcmp t GNGSA_TERM = 0 \<or> gpsstrcmp t GPGSA_TERM = 0 then GPS_SENTENCE_GNGSA
      else if gpsstrcmp t GPGSV_TERM = 0 then GPS_SENTENCE_GPGSV
      else if gpsstrcmp t GLGSV_TERM = 0 then GPS_SENTENCE_GLGSV
      else if gpsstrcmp t GPZDA_TERM = 0 then GPS_SENTENCE_GPZDA
      else if gpsstrcmp t PUBX_TERM = 0 then GPS_SENTENCE_PUBX
      else GPS_SENTENCE_OTHER)"

text \<open>
  The promotion that a matching checksum performs whatever the data-good flag says
  (lines 224-244): time and date for RMC and PUBX,04, time and the full date for ZDA.
\<close>

definition set_time_and_date :: "tinygps \<Rightarrow> tinygps" where
  "set_time_and_date g =
     (let k = Cursor g; n = Staging g;
          g1 = (if sentence_type k = GPS_SENTENCE_GPRMC
                   \<or> (sentence_type k = GPS_SENTENCE_PUBX \<and> UBX_message_type k = 4)
                then g\<lparr>Fix := (Fix g)\<lparr>time := new_time n, date := new_date n,
                                        last_time_fix := new_time_fix n\<rparr>\<rparr>
                else g)
      in if sentence_type k = GPS_SENTENCE_GPZDA
         then g1\<lparr>Fix := (Fix g1)\<lparr>time := new_time n, last_time_fix := new_time_fix n,
                                   day := new_day n, month := new_month n,
                                   year := new_year n, last_date_fix := new_date_fix n\<rparr>\<rparr>
         else g1)"

text \<open>The promotion under a true data-good flag (lines 246-286).\<close>

definition promote_good :: "tinygps \<Rightarrow> tinygps" where
  "promote_good g0 =
     (let k = Cursor g0; n = Staging g0;
          g = g0\<lparr>Stats := (Stats g0)\<lparr>good_sentences := good_sentences (Stats g0) + 1\<rparr>,
                 Fix := (Fix g0)\<lparr>last_time_fix := new_time_fix n,
                                  last_position_fix := new_position_fix n\<rparr>\<rparr>
      in if sentence_type k = GPS_SENTENCE_GPRMC
         then g\<lparr>Fix := (Fix g)\<lparr>time := new_time n, date := new_date n,
                                 latitude := new_latitude n, longitude := new_longitude n,
                                 speed := new_speed n, course := new_course n\<rparr>\<rparr>
         else if sentence_type k = GPS_SENTENCE_GPGGA
         then g\<lparr>Fix := (Fix g)\<lparr>altitude := new_altitude n, time := new_time n,
                                 latitude := new_latitude n, longitude := new_longitude n,
                                 numsats := new_numsats n, hdop := new_hdop n\<rparr>\<rparr>
         else if sentence_type k = GPS_SENTENCE_PUBX \<and> UBX_message_type k = 0
         then g\<lparr>Fix := (Fix g)\<lparr>time := new_time n, latitude := new_latitude n,
                                 longitude := new_longitude n, speed := new_speed n,
                                 course := new_course n, altitude := new_altitude n,
                                 numsats := new_numsats n, hdop := new_hdop n\<rparr>\<rparr>
         else g)"

text \<open>The checksum byte read from the first two characters of the term buffer.\<close>

definition checksum_of :: "u8 list \<Rightarrow> u8" where
  "checksum_of buf = ucast (16 * from_hex (buf ! 0) + from_hex (buf ! 1))"

definition checksum_term :: "tinygps \<Rightarrow> bool \<times> tinygps" where
  "checksum_term g =
     (if checksum_of (term_buf (Cursor g)) = parity (Cursor g)
      then (let g1 = set_time_and_date g
            in if gps_data_good (Cursor g) then (True, promote_good g1) else (False, g1))
      else (False, g\<lparr>Stats := (Stats g)\<lparr>failed_checksum := failed_checksum (Stats g) + 1\<rparr>\<rparr>))"

text \<open>The body of the switch (lines 341-493), for the value \<open>key\<close> it switches on.\<close>

definition switch_term :: "u32 \<Rightarrow> u32 \<Rightarrow> tinygps \<Rightarrow> fault + tinygps" where
  "switch_term key now g =
     (let k = Cursor g; n = Staging g; v = Sats g;
          t = c_str (term_buf k);
          t0 = term_buf k ! 0;
          t1 = term_buf k ! 1
      in
      if key \<in> {label GPS_SENTENCE_GPRMC 1, label GPS_SENTENCE_GPGGA 1,
                 label GPS_SENTENCE_GNGNS 1, label GPS_SENTENCE_GPZDA 1,
                 ubx_label 0 2, ubx_label 4 2}
      then Inr (g\<lparr>Staging := n\<lparr>new_time := parse_decimal t, new_time_fix := now\<rparr>\<rparr>)
      else if key = label GPS_SENTENCE_GPRMC 2
      then Inr (g\<lparr>Cursor := k\<lparr>gps_data_good := (t0 = 0x41)\<rparr>\<rparr>)
      else if key \<in> {label GPS_SENTENCE_GPRMC 3, label GPS_SENTENCE_GPGGA 2,
                      label GPS_SENTENCE_GNGNS 2, ubx_label 0 3}
      then Inr (g\<lparr>Staging := n\<lparr>new_latitude := parse_degrees t, new_position_fix := now\<rparr>\<rparr>)
      else if key \<in> {label GPS_SENTENCE_GPRMC 4, label GPS_SENTENCE_GPGGA 3,
                      label GPS_SENTENCE_GNGNS 3, ubx_label 0 4}
      then Inr (if t0 = 0x53 then g\<lparr>Staging := n\<lparr>new_latitude := - new_latitude n\<rparr>\<rparr> else g)
      else if key \<in> {label GPS_SENTENCE_GPRMC 5, label GPS_SENTENCE_GPGGA 4,
                      label GPS_SENTENCE_GNGNS 4, ubx_label 0 5}
      then Inr (g\<lparr>Staging := n\<lparr>new_longitude := parse_degrees t\<rparr>\<rparr>)
      else if key \<in> {label GPS_SENTENCE_GPRMC 6, label GPS_SENTENCE_GPGGA 5,
                      label GPS_SENTENCE_GNGNS 5, ubx_label 0 6}
      then Inr (if t0 = 0x57 then g\<lparr>Staging := n\<lparr>new_longitude := - new_longitude n\<rparr>\<rparr> else g)
      else if key = label GPS_SENTENCE_GNGNS 6
      then Inr (g\<lparr>Sats := v\<lparr>constellations := (strncpy (constellations v) t 5)[5 := 0]\<rparr>\<rparr>)
      else if key \<in> {label GPS_SENTENCE_GPRMC 7, ubx_label 0 11}
      then Inr (g\<lparr>Staging := n\<lparr>new_speed := parse_decimal t\<rparr>\<rparr>)
      else if key \<in> {label GPS_SENTENCE_GPRMC 8, ubx_label 0 12}
      then Inr (g\<lparr>Staging := n\<lparr>new_course := parse_decimal t\<rparr>\<rparr>)
      else if key \<in> {label GPS_SENTENCE_GPRMC 9, ubx_label 4 3}
      then Inr (g\<lparr>Staging := n\<lparr>new_date := gpsatol t\<rparr>\<rparr>)
      else if key = label GPS_SENTENCE_GPZDA 2
      then Inr (g\<lparr>Staging := n\<lparr>new_day := gpsatol t, new_date_fix := now\<rparr>\<rparr>)
      else if key = label GPS_SENTENCE_GPZDA 3
      then Inr (g\<lparr>Staging := n\<lparr>new_month := gpsatol t, new_date_fix := now\<rparr>\<rparr>)
      else if key = label GPS_SENTENCE_GPZDA 4
      then Inr (g\<lparr>Staging := n\<lparr>new_year := gpsatol t, new_date_fix := now\<rparr>\<rparr>)
      else if key = label GPS_SENTENCE_GPGGA 6
      then Inr (g\<lparr>Cursor := k\<lparr>gps_data_good := (0x30 < t0)\<rparr>\<rparr>)
      else if key \<in> {label GPS_SENTENCE_GPGGA 7, label GPS_SENTENCE_GNGNS 7, ubx_label 0 18}
      then Inr (g\<lparr>Staging := n\<lparr>new_numsats := ucast (ucast (atoi t) :: u8)\<rparr>\<rparr>)
      else if key \<in> {label GPS_SENTENCE_GPGGA 8, ubx_label 0 15}
      then Inr (g\<lparr>Staging := n\<lparr>new_hdop := parse_decimal t\<rparr>\<rparr>)
      else if key \<in> {label GPS_SENTENCE_GPGGA 9, ubx_label 0 7}
      then Inr (g\<lparr>Staging := n\<lparr>new_altitude := parse_decimal t\<rparr>\<rparr>)
      else if key = ubx_label 0 8
      then Inr (g\<lparr>Cursor := k\<lparr>gps_data_good := (t0 = 0x47 \<or> (t0 = 0x44 \<and> t1 \<noteq> 0x52))\<rparr>\<rparr>)
      else if key = label GPS_SENTENCE_GNGSA 3
      then Inr g
      else if key \<in> {label GPS_SENTENCE_GPGSV 2, label GPS_SENTENCE_GLGSV 2}
      then (let msgId = (ucast (atoi t - 1) :: u8);
                rec = (if msgId = 0
                       then (if sentence_type k = GPS_SENTENCE_GPGSV
                             then clear_slots 0 12 (tracked_sat_rec v)
                             else clear_slots 12 24 (tracked_sat_rec v))
                       else tracked_sat_rec v);
                si = (if sentence_type k = GPS_SENTENCE_GLGSV then msgId * 4 + 12 else msgId * 4)
            in Inr (g\<lparr>Sats := v\<lparr>tracked_sat_rec := rec, sat_index := si\<rparr>\<rparr>))
      else if key \<in> {label GPS_SENTENCE_GPGSV 4, label GPS_SENTENCE_GPGSV 8,
                      label GPS_SENTENCE_GPGSV 12, label GPS_SENTENCE_GPGSV 16,
                      label GPS_SENTENCE_GLGSV 4, label GPS_SENTENCE_GLGSV 8,
                      label GPS_SENTENCE_GLGSV 12, label GPS_SENTENCE_GLGSV 16}
      then Inr (g\<lparr>Sats := v\<lparr>tracked_satellites_index := atoi t\<rparr>\<rparr>)
      else if key \<in> {label GPS_SENTENCE_GPGSV 7, label GPS_SENTENCE_GPGSV 11,
                      label GPS_SENTENCE_GPGSV 15, label GPS_SENTENCE_GPGSV 19,
                      label GPS_SENTENCE_GLGSV 7, label GPS_SENTENCE_GLGSV 11,
                      label GPS_SENTENCE_GLGSV 15, label GPS_SENTENCE_GLGSV 19}
      then (let stren = (ucast (atoi t) :: u8);
                i = uint (sat_index v) + (uint (term_number k) - 7) sdiv 4;
                x = (if stren = 0 then 0
                     else push_bit 8 (tracked_satellites_index v) OR push_bit 1 (ucast stren))
            in case store_sat i x (tracked_sat_rec v) of
                 Inl e \<Rightarrow> Inl e
               | Inr rec \<Rightarrow> Inr (g\<lparr>Sats := v\<lparr>tracked_sat_rec := rec\<rparr>\<rparr>))
      else Inr g)"

text \<open>
  The key of the switch (lines 337-341): a PUBX sentence dispatches on its submessage
  number, every other one on its tag.
\<close>

definition dispatch :: "u32 \<Rightarrow> tinygps \<Rightarrow> fault + tinygps" where
  "dispatch now g =
     (let k = Cursor g;
          st = (if sentence_type k = GPS_SENTENCE_PUBX then UBX_MESSAGE (UBX_message_type k)
                else sentence_code (sentence_type k))
      in switch_term (COMBINE st (ucast (term_number k))) now g)"

definition term_complete :: "u32 \<Rightarrow> tinygps \<Rightarrow> fault + bool \<times> tinygps" where
  "term_complete now g =
     (let k = Cursor g in
      if is_checksum_term k then Inr (checksum_term g)
      else if term_number k = 0
      then Inr (False, g\<lparr>Cursor := k\<lparr>sentence_type := sentence_of_term (c_str (term_buf k))\<rparr>\<rparr>)
      else if sentence_type k = GPS_SENTENCE_PUBX \<and> term_number k = 1
      then Inr (False, g\<lparr>Cursor := k\<lparr>UBX_message_type := gpsatol (c_str (term_buf k))\<rparr>\<rparr>)
      else if sentence_type k \<noteq> GPS_SENTENCE_OTHER \<and> term_buf k ! 0 \<noteq> 0
      then (case dispatch now g of Inl e \<Rightarrow> Inl e | Inr g' \<Rightarrow> Inr (False, g'))
      else Inr (False, g))"

section \<open>encode\<close>

text \<open>
  One call of \<^verbatim>\<open>encode(c)\<close>, with \<open>now\<close> the value \<^verbatim>\<open>millis()\<close> returns during
  the call. The characters: \<open>0x2C\<close> is the comma, \<open>0x0D\<close> and \<open>0x0A\<close> are CR and LF,
  \<open>0x2A\<close> is the asterisk and \<open>0x24\<close> the dollar sign.
\<close>

definition encode :: "u32 \<Rightarrow> u8 \<Rightarrow> tinygps \<Rightarrow> fault + bool \<times> tinygps" where
  "encode now c g0 =
     (let g = g0\<lparr>Stats := (Stats g0)\<lparr>encoded_characters := encoded_characters (Stats g0) + 1\<rparr>\<rparr>
      in
      if c = 0x2C \<or> c = 0x0D \<or> c = 0x0A \<or> c = 0x2A
      then (let g1 = (if c = 0x2C
                      then g\<lparr>Cursor := (Cursor g)\<lparr>parity := parity (Cursor g) XOR c\<rparr>\<rparr>
                      else g);
                k1 = Cursor g1
            in case (if unat (term_offset k1) < 15
                     then term_complete now
                            (g1\<lparr>Cursor := k1\<lparr>term_buf := (term_buf k1)[unat (term_offset k1) := 0]\<rparr>\<rparr>)
                     else Inr (False, g1)) of
                 Inl e \<Rightarrow> Inl e
               | Inr (valid_sentence, g2) \<Rightarrow>
                   Inr (valid_sentence,
                        g2\<lparr>Cursor := (Cursor g2)\<lparr>term_number := term_number (Cursor g2) + 1,
                                                  term_offset := 0,
                                                  is_checksum_term := (c = 0x2A)\<rparr>\<rparr>))
      else if c = 0x24
      then Inr (False,
                g\<lparr>Cursor := (Cursor g)\<lparr>term_number := 0, term_offset := 0, parity := 0,
                                        sentence_type := GPS_SENTENCE_OTHER,
                                        is_checksum_term := False,
                                        gps_data_good := False\<rparr>\<rparr>)
      else (let k = Cursor g;
                k1 = (if unat (term_offset k) < 14
                      then k\<lparr>term_buf := (term_buf k)[unat (term_offset k) := c],
                             term_offset := term_offset k + 1\<rparr>
                      else k);
                k2 = (if \<not> is_checksum_term k1 then k1\<lparr>parity := parity k1 XOR c\<rparr> else k1)
            in Inr (False, g\<lparr>Cursor := k2\<rparr>)))"

text \<open>
  A stream of calls: each input pairs the clock reading of the call with its character.
  The run returns every call's result in order and the final object, or the first fault.
\<close>

fun collect :: "bool list \<Rightarrow> fault + bool \<times> tinygps \<Rightarrow> fault + bool list \<times> tinygps" where
  "collect vs (Inl e) = Inl e"
| "collect vs (Inr (v, g)) = Inr (vs @ [v], g)"

fun step :: "fault + bool list \<times> tinygps \<Rightarrow> u32 \<times> u8 \<Rightarrow> fault + bool list \<times> tinygps" where
  "step (Inl e) x = Inl e"
| "step (Inr (vs, g)) x = collect vs (encode (fst x) (snd x) g)"

definition run :: "tinygps \<Rightarrow> (u32 \<times> u8) list \<Rightarrow> fault + bool list \<times> tinygps" where
  "run g xs = foldl step (Inr ([], g)) xs"

definition at_clock :: "u32 \<Rightarrow> u8 list \<Rightarrow> (u32 \<times> u8) list" where
  "at_clock now cs = map (Pair now) cs"

text \<open>The same stream under a running clock: call number \<open>i\<close> reads \<open>clock i\<close>.\<close>

definition stamp :: "(nat \<Rightarrow> u32) \<Rightarrow> u8 list \<Rightarrow> (u32 \<times> u8) list" where
  "stamp clock cs = zip (map clock [0..<length cs]) cs"

text \<open>What a finished run returned, and the object it left.\<close>

definition returned :: "fault + bool list \<times> tinygps \<Rightarrow> bool list option" where
  "returned r = (case r of Inl e \<Rightarrow> None | Inr (vs, g) \<Rightarrow> Some vs)"

definition final :: "fault + bool list \<times> tinygps \<Rightarrow> tinygps option" where
  "final r = (case r of Inl e \<Rightarrow> None | Inr (vs, g) \<Rightarrow> Some g)"

section \<open>Accessors\<close>

definition fix_age :: "u32 \<Rightarrow> u32 \<Rightarrow> u32" where
  "fix_age now last_fix =
     (if last_fix = GPS_INVALID_FIX_TIME then GPS_INVALID_AGE else now - last_fix)"

definition get_position :: "u32 \<Rightarrow> tinygps \<Rightarrow> u32 \<times> u32 \<times> u32" where
  "get_position now g =
     (latitude (Fix g), longitude (Fix g), fix_age now (last_position_fix (Fix g)))"

definition get_datetime :: "u32 \<Rightarrow> tinygps \<Rightarrow> u32 \<times> u32 \<times> u32" where
  "get_datetime now g = (date (Fix g), time (Fix g), fix_age now (last_time_fix (Fix g)))"

section \<open>Sentences\<close>

text \<open>
  The exclusive-or of a list of characters: what \<^verbatim>\<open>_parity\<close> accumulates from 0.
\<close>

primrec xor_all :: "u8 list \<Rightarrow> u8" where
  "xor_all [] = 0"
| "xor_all (c # cs) = c XOR xor_all cs"






section \<open>What a term and a character leave alone\<close>

text \<open>
  The switch writes staged values, the data-good flag and the satellite members only; the
  promotion writes the published fix and a counter only.
\<close>

lemma switch_term_frame:
  "case switch_term key now g of Inl e \<Rightarrow> True
   | Inr g' \<Rightarrow> Fix g' = Fix g \<and> Stats g' = Stats g
      \<and> parity (Cursor g') = parity (Cursor g)
      \<and> is_checksum_term (Cursor g') = is_checksum_term (Cursor g)
      \<and> term_buf (Cursor g') = term_buf (Cursor g)
      \<and> term_number (Cursor g') = term_number (Cursor g)
      \<and> term_offset (Cursor g') = term_offset (Cursor g)
      \<and> sentence_type (Cursor g') = sentence_type (Cursor g)
      \<and> UBX_message_type (Cursor g') = UBX_message_type (Cursor g)"
  by (simp add: switch_term_def Let_def store_sat_def split: sum.split)

lemma dispatch_frame:
  assumes "dispatch now g = Inr g'"
  shows "Fix g' = Fix g" and "Stats g' = Stats g"
    and "parity (Cursor g') = parity (Cursor g)"
    and "is_checksum_term (Cursor g') = is_checksum_term (Cursor g)"
    and "term_buf (Cursor g') = term_buf (Cursor g)"
    and "term_number (Cursor g') = term_number (Cursor g)"
    and "term_offset (Cursor g') = term_offset (Cursor g)"
    and "sentence_type (Cursor g') = sentence_type (Cursor g)"
    and "UBX_message_type (Cursor g') = UBX_message_type (Cursor g)"
proof -
  obtain key where "switch_term key now g = Inr g'"
    using assms by (auto simp: dispatch_def Let_def)
  with switch_term_frame [where key = key and now = now and g = g]
  show "Fix g' = Fix g" and "Stats g' = Stats g"
    and "parity (Cursor g') = parity (Cursor g)"
    and "is_checksum_term (Cursor g') = is_checksum_term (Cursor g)"
    and "term_buf (Cursor g') = term_buf (Cursor g)"
    and "term_number (Cursor g') = term_number (Cursor g)"
    and "term_offset (Cursor g') = term_offset (Cursor g)"
    and "sentence_type (Cursor g') = sentence_type (Cursor g)"
    and "UBX_message_type (Cursor g') = UBX_message_type (Cursor g)"
    by simp_all
qed

lemma set_time_and_date_frame:
  "Staging (set_time_and_date g) = Staging g" "Cursor (set_time_and_date g) = Cursor g"
  "Sats (set_time_and_date g) = Sats g" "Stats (set_time_and_date g) = Stats g"
  by (simp_all add: set_time_and_date_def Let_def)

lemma promote_good_frame:
  "Staging (promote_good g) = Staging g" "Cursor (promote_good g) = Cursor g"
  "Sats (promote_good g) = Sats g"
  by (simp_all add: promote_good_def Let_def)

lemma checksum_term_frame:
  "Staging (snd (checksum_term g)) = Staging g" "Cursor (snd (checksum_term g)) = Cursor g"
  "Sats (snd (checksum_term g)) = Sats g"
  by (simp_all add: checksum_term_def Let_def set_time_and_date_frame promote_good_frame)

lemma term_complete_frame:
  assumes "term_complete now g = Inr (v, g')" and "\<not> is_checksum_term (Cursor g)"
  shows "\<not> v" and "Fix g' = Fix g" and "Stats g' = Stats g"
    and "parity (Cursor g') = parity (Cursor g)"
    and "is_checksum_term (Cursor g') = is_checksum_term (Cursor g)"
    and "term_buf (Cursor g') = term_buf (Cursor g)"
    and "term_number (Cursor g') = term_number (Cursor g)"
    and "term_offset (Cursor g') = term_offset (Cursor g)"
  using assms unfolding term_complete_def Let_def
  by (auto split: if_splits sum.splits dest: dispatch_frame)

lemma term_complete_cursor:
  assumes "term_complete now g = Inr (v, g')"
  shows "parity (Cursor g') = parity (Cursor g)"
    and "is_checksum_term (Cursor g') = is_checksum_term (Cursor g)"
    and "term_buf (Cursor g') = term_buf (Cursor g)"
    and "term_number (Cursor g') = term_number (Cursor g)"
    and "term_offset (Cursor g') = term_offset (Cursor g)"
proof -
  have "parity (Cursor g') = parity (Cursor g)
      \<and> is_checksum_term (Cursor g') = is_checksum_term (Cursor g)
      \<and> term_buf (Cursor g') = term_buf (Cursor g)
      \<and> term_number (Cursor g') = term_number (Cursor g)
      \<and> term_offset (Cursor g') = term_offset (Cursor g)"
  proof (cases "is_checksum_term (Cursor g)")
    case True
    with assms have "g' = snd (checksum_term g)"
      by (simp add: term_complete_def)
    then show ?thesis by (simp add: checksum_term_frame)
  next
    case False
    from term_complete_frame [OF assms False] show ?thesis by simp
  qed
  then show "parity (Cursor g') = parity (Cursor g)"
    and "is_checksum_term (Cursor g') = is_checksum_term (Cursor g)"
    and "term_buf (Cursor g') = term_buf (Cursor g)"
    and "term_number (Cursor g') = term_number (Cursor g)"
    and "term_offset (Cursor g') = term_offset (Cursor g)"
    by simp_all
qed

lemma foldl_step_Inl: "foldl step (Inl e) xs = Inl e"
  by (induction xs) simp_all

lemma run_Nil: "run g [] = Inr ([], g)"
  by (simp add: run_def)

lemma foldl_step_prefix:
  "foldl step (Inr (vs, g)) xs =
     (case foldl step (Inr ([], g)) xs of Inl e \<Rightarrow> Inl e | Inr (ws, g') \<Rightarrow> Inr (vs @ ws, g'))"
proof (induction xs rule: rev_induct)
  case Nil
  show ?case by simp
next
  case (snoc x xs)
  show ?case
  proof (cases "foldl step (Inr ([], g)) xs")
    case (Inl e)
    with snoc show ?thesis by simp
  next
    case (Inr p)
    obtain ws g1 where p: "p = (ws, g1)" by (cases p)
    show ?thesis
      using snoc Inr p by (cases "encode (fst x) (snd x) g1") auto
  qed
qed

lemma run_Cons:
  "run g (x # xs) = Inr (rs, g2) \<longleftrightarrow>
     (\<exists>v g1 ws. encode (fst x) (snd x) g = Inr (v, g1) \<and> run g1 xs = Inr (ws, g2) \<and> rs = v # ws)"
proof (cases "encode (fst x) (snd x) g")
  case (Inl e)
  then show ?thesis by (simp add: run_def foldl_step_Inl)
next
  case (Inr p)
  obtain v g1 where p: "p = (v, g1)" by (cases p)
  show ?thesis
    using Inr p foldl_step_prefix [of "[v]" g1 xs]
    by (auto simp: run_def split: sum.splits)
qed

lemma run_append:
  "run g (xs @ ys) = Inr (rs, g2) \<longleftrightarrow>
     (\<exists>rs1 g1 rs2. run g xs = Inr (rs1, g1) \<and> run g1 ys = Inr (rs2, g2) \<and> rs = rs1 @ rs2)"
proof (induction xs arbitrary: g rs)
  case Nil
  show ?case by (simp add: run_Nil)
next
  case (Cons x xs)
  show ?case
    unfolding append_Cons run_Cons Cons.IH by (auto simp: run_Cons)
qed


lemma encode_dollar:
  "encode now 0x24 g =
     Inr (False, g\<lparr>Stats := (Stats g)\<lparr>encoded_characters := encoded_characters (Stats g) + 1\<rparr>,
                   Cursor := (Cursor g)\<lparr>term_number := 0, term_offset := 0, parity := 0,
                                sentence_type := GPS_SENTENCE_OTHER, is_checksum_term := False,
                                gps_data_good := False\<rparr>\<rparr>)"
  by (simp add: encode_def Let_def)

lemma encode_body_char:
  assumes "encode now c g = Inr (v, g')" and "\<not> is_checksum_term (Cursor g)"
    and "c \<noteq> 0x24" "c \<noteq> 0x2A" "c \<noteq> 0x0D" "c \<noteq> 0x0A"
  shows "\<not> v" and "Fix g' = Fix g" and "\<not> is_checksum_term (Cursor g')"
    and "parity (Cursor g') = parity (Cursor g) XOR c"
    and "failed_checksum (Stats g') = failed_checksum (Stats g)"
  using assms unfolding encode_def Let_def
  by (auto split: if_splits sum.splits dest: term_complete_frame)

lemma encode_length:
  assumes "encode now c g = Inr (v, g')"
  shows "length (term_buf (Cursor g')) = length (term_buf (Cursor g))"
  using assms unfolding encode_def Let_def
  by (auto split: if_splits sum.splits dest: term_complete_cursor(3))

section \<open>Runs over the parts of a sentence\<close>

lemma encode_ordinary:
  assumes "c \<noteq> 0x2C" "c \<noteq> 0x0D" "c \<noteq> 0x0A" "c \<noteq> 0x2A" "c \<noteq> 0x24"
  shows "\<exists>g'. encode now c g = Inr (False, g') \<and> Fix g' = Fix g \<and> Staging g' = Staging g
      \<and> Sats g' = Sats g
      \<and> is_checksum_term (Cursor g') = is_checksum_term (Cursor g)
      \<and> parity (Cursor g') =
            (if is_checksum_term (Cursor g) then parity (Cursor g) else parity (Cursor g) XOR c)
      \<and> term_buf (Cursor g') =
            (if unat (term_offset (Cursor g)) < 14
             then (term_buf (Cursor g))[unat (term_offset (Cursor g)) := c]
             else term_buf (Cursor g))
      \<and> term_offset (Cursor g') =
            (if unat (term_offset (Cursor g)) < 14 then term_offset (Cursor g) + 1
             else term_offset (Cursor g))
      \<and> term_number (Cursor g') = term_number (Cursor g)
      \<and> sentence_type (Cursor g') = sentence_type (Cursor g)
      \<and> UBX_message_type (Cursor g') = UBX_message_type (Cursor g)
      \<and> gps_data_good (Cursor g') = gps_data_good (Cursor g)
      \<and> good_sentences (Stats g') = good_sentences (Stats g)
      \<and> failed_checksum (Stats g') = failed_checksum (Stats g)"
  using assms by (simp add: encode_def Let_def)

lemma encode_star:
  assumes "encode now 0x2A g = Inr (v, g')" and "\<not> is_checksum_term (Cursor g)"
  shows "\<not> v" and "Fix g' = Fix g" and "is_checksum_term (Cursor g')"
    and "parity (Cursor g') = parity (Cursor g)" and "term_offset (Cursor g') = 0"
    and "failed_checksum (Stats g') = failed_checksum (Stats g)"
  using assms unfolding encode_def Let_def
  by (auto split: if_splits sum.splits dest: term_complete_frame)

lemma run_body:
  assumes "run g inp = Inr (rs, g')" and "\<not> is_checksum_term (Cursor g)"
    and "set (map snd inp) \<inter> {0x24, 0x2A, 0x0D, 0x0A} = {}"
  shows "Fix g' = Fix g \<and> \<not> is_checksum_term (Cursor g')
      \<and> parity (Cursor g') = parity (Cursor g) XOR xor_all (map snd inp)
      \<and> rs = replicate (length inp) False
      \<and> failed_checksum (Stats g') = failed_checksum (Stats g)"
  using assms
proof (induction inp arbitrary: g rs)
  case Nil
  then show ?case by (simp add: run_Nil)
next
  case (Cons x xs)
  from Cons.prems(1) obtain v g1 ws
    where e: "encode (fst x) (snd x) g = Inr (v, g1)"
      and r: "run g1 xs = Inr (ws, g')" and rs: "rs = v # ws"
    by (auto simp: run_Cons)
  from Cons.prems(3) have c: "snd x \<noteq> 0x24" "snd x \<noteq> 0x2A" "snd x \<noteq> 0x0D" "snd x \<noteq> 0x0A"
    and rest: "set (map snd xs) \<inter> {0x24, 0x2A, 0x0D, 0x0A} = {}"
    by auto
  note s = encode_body_char [OF e Cons.prems(2) c]
  from Cons.IH [OF r s(3) rest] s rs show ?case
    by (simp add: xor.assoc)
qed

lemma run_checksum_chars:
  assumes "run g inp = Inr (rs, g')" and "is_checksum_term (Cursor g)"
    and "set (map snd inp) \<inter> {0x2C, 0x0D, 0x0A, 0x2A, 0x24} = {}"
  shows "Fix g' = Fix g \<and> is_checksum_term (Cursor g')
      \<and> parity (Cursor g') = parity (Cursor g)
      \<and> rs = replicate (length inp) False"
  using assms
proof (induction inp arbitrary: g rs)
  case Nil
  then show ?case by (simp add: run_Nil)
next
  case (Cons x xs)
  from Cons.prems(3) have c: "snd x \<noteq> 0x2C" "snd x \<noteq> 0x0D" "snd x \<noteq> 0x0A" "snd x \<noteq> 0x2A" "snd x \<noteq> 0x24"
    and rest: "set (map snd xs) \<inter> {0x2C, 0x0D, 0x0A, 0x2A, 0x24} = {}"
    by auto
  from encode_ordinary [OF c, of "fst x" g] obtain g1
    where e: "encode (fst x) (snd x) g = Inr (False, g1)" and f: "Fix g1 = Fix g"
      and k: "is_checksum_term (Cursor g1) = is_checksum_term (Cursor g)"
      and p: "parity (Cursor g1) =
            (if is_checksum_term (Cursor g) then parity (Cursor g) else parity (Cursor g) XOR snd x)"
    by blast
  from Cons.prems(1) e obtain ws where r: "run g1 xs = Inr (ws, g')" and rs: "rs = False # ws"
    by (auto simp: run_Cons)
  from k Cons.prems(2) have k1: "is_checksum_term (Cursor g1)" by simp
  from Cons.IH [OF r k1 rest] f p rs Cons.prems(2) show ?case by simp
qed

lemma map_snd_eq_Cons:
  assumes "map snd inp = c # cs"
  obtains x xs where "inp = x # xs" and "snd x = c" and "map snd xs = cs"
  using assms by (cases inp) auto

lemma map_snd_eq_append:
  assumes "map snd inp = as @ bs"
  obtains xs ys where "inp = xs @ ys" and "map snd xs = as" and "map snd ys = bs"
  using assms by (auto simp: map_eq_append_conv)

lemma run_length:
  assumes "run g inp = Inr (rs, g')"
  shows "length (term_buf (Cursor g')) = length (term_buf (Cursor g))"
  using assms
proof (induction inp arbitrary: g rs)
  case Nil
  then show ?case by (simp add: run_Nil)
next
  case (Cons x xs)
  then show ?case by (auto simp: run_Cons dest!: encode_length)
qed

lemma encode_checksum_mismatch:
  assumes "is_checksum_term (Cursor g)" and "c = 0x0D \<or> c = 0x0A \<or> c = 0x2A"
    and "unat (term_offset (Cursor g)) < 15"
    and "checksum_of ((term_buf (Cursor g))[unat (term_offset (Cursor g)) := 0]) \<noteq> parity (Cursor g)"
  shows "\<exists>g'. encode now c g = Inr (False, g') \<and> Fix g' = Fix g
     \<and> failed_checksum (Stats g') = failed_checksum (Stats g) + 1"
  using assms by (auto simp: encode_def Let_def term_complete_def checksum_term_def)

lemma two_checksum_chars:
  assumes r: "run g [x1, x2] = Inr (rs, g')" and k: "is_checksum_term (Cursor g)"
    and o: "term_offset (Cursor g) = 0" and l: "length (term_buf (Cursor g)) = 15"
    and c1: "snd x1 \<notin> {0x2C, 0x0D, 0x0A, 0x2A, 0x24}"
    and c2: "snd x2 \<notin> {0x2C, 0x0D, 0x0A, 0x2A, 0x24}"
  shows "Fix g' = Fix g \<and> is_checksum_term (Cursor g') \<and> parity (Cursor g') = parity (Cursor g)
     \<and> rs = [False, False] \<and> term_offset (Cursor g') = 2
     \<and> failed_checksum (Stats g') = failed_checksum (Stats g)
     \<and> checksum_of ((term_buf (Cursor g'))[2 := 0]) = checksum_of [snd x1, snd x2]"
proof -
  from c1 have n1: "snd x1 \<noteq> 0x2C" "snd x1 \<noteq> 0x0D" "snd x1 \<noteq> 0x0A" "snd x1 \<noteq> 0x2A" "snd x1 \<noteq> 0x24"
    by auto
  from c2 have n2: "snd x2 \<noteq> 0x2C" "snd x2 \<noteq> 0x0D" "snd x2 \<noteq> 0x0A" "snd x2 \<noteq> 0x2A" "snd x2 \<noteq> 0x24"
    by auto
  from encode_ordinary [OF n1, of "fst x1" g] k o obtain g1
    where e1: "encode (fst x1) (snd x1) g = Inr (False, g1)" and f1: "Fix g1 = Fix g"
      and k1: "is_checksum_term (Cursor g1)" and p1: "parity (Cursor g1) = parity (Cursor g)"
      and b1: "term_buf (Cursor g1) = (term_buf (Cursor g))[0 := snd x1]"
      and o1: "term_offset (Cursor g1) = 1"
      and s1: "failed_checksum (Stats g1) = failed_checksum (Stats g)"
    by auto
  from encode_ordinary [OF n2, of "fst x2" g1] k1 o1 obtain g2
    where e2: "encode (fst x2) (snd x2) g1 = Inr (False, g2)" and f2: "Fix g2 = Fix g1"
      and k2: "is_checksum_term (Cursor g2)" and p2: "parity (Cursor g2) = parity (Cursor g1)"
      and b2: "term_buf (Cursor g2) = (term_buf (Cursor g1))[1 := snd x2]"
      and o2: "term_offset (Cursor g2) = 2"
      and s2: "failed_checksum (Stats g2) = failed_checksum (Stats g1)"
    by auto
  from r e1 e2 have g': "g' = g2" and rs: "rs = [False, False]"
    by (auto simp: run_Cons run_Nil)
  from l b1 b2 have "checksum_of ((term_buf (Cursor g2))[2 := 0]) = checksum_of [snd x1, snd x2]"
    by (simp add: checksum_of_def nth_list_update)
  with g' rs f1 f2 k2 p1 p2 o2 s1 s2 show ?thesis by simp
qed

section \<open>Calls that return false\<close>

lemma set_time_and_date_position:
  "latitude (Fix (set_time_and_date g)) = latitude (Fix g)"
  "longitude (Fix (set_time_and_date g)) = longitude (Fix g)"
  "altitude (Fix (set_time_and_date g)) = altitude (Fix g)"
  "speed (Fix (set_time_and_date g)) = speed (Fix g)"
  "course (Fix (set_time_and_date g)) = course (Fix g)"
  "hdop (Fix (set_time_and_date g)) = hdop (Fix g)"
  "numsats (Fix (set_time_and_date g)) = numsats (Fix g)"
  "last_position_fix (Fix (set_time_and_date g)) = last_position_fix (Fix g)"
  by (simp_all add: set_time_and_date_def Let_def)

lemma set_time_and_date_cong:
  assumes "Fix h = Fix g" and "Staging h = Staging g"
    and "sentence_type (Cursor h) = sentence_type (Cursor g)"
    and "UBX_message_type (Cursor h) = UBX_message_type (Cursor g)"
  shows "Fix (set_time_and_date h) = Fix (set_time_and_date g)"
  using assms by (simp add: set_time_and_date_def Let_def)

lemma checksum_term_false:
  assumes "checksum_term g = (False, g')"
  shows "Fix g' = Fix g
     \<or> (\<not> gps_data_good (Cursor g) \<and> checksum_of (term_buf (Cursor g)) = parity (Cursor g)
        \<and> Fix g' = Fix (set_time_and_date g))"
  using assms by (auto simp: checksum_term_def Let_def split: if_splits)

lemma term_complete_false:
  assumes "term_complete now g = Inr (False, g')"
  shows "Fix g' = Fix g
     \<or> (is_checksum_term (Cursor g) \<and> \<not> gps_data_good (Cursor g)
        \<and> checksum_of (term_buf (Cursor g)) = parity (Cursor g)
        \<and> Fix g' = Fix (set_time_and_date g))"
proof (cases "is_checksum_term (Cursor g)")
  case True
  with assms have "checksum_term g = (False, g')" by (simp add: term_complete_def)
  from checksum_term_false [OF this] True show ?thesis by blast
next
  case False
  from term_complete_frame(2) [OF assms False] show ?thesis by simp
qed

lemma encode_false:
  assumes "encode now c g = Inr (False, g')"
  shows "Fix g' = Fix g
     \<or> (is_checksum_term (Cursor g) \<and> (c = 0x2C \<or> c = 0x0D \<or> c = 0x0A \<or> c = 0x2A)
        \<and> \<not> gps_data_good (Cursor g)
        \<and> checksum_of ((term_buf (Cursor g))[unat (term_offset (Cursor g)) := 0])
            = (if c = 0x2C then parity (Cursor g) XOR c else parity (Cursor g))
        \<and> Fix g' = Fix (set_time_and_date g))"
proof (cases "c = 0x2C \<or> c = 0x0D \<or> c = 0x0A \<or> c = 0x2A")
  case False
  with assms show ?thesis
    by (auto simp: encode_def Let_def split: if_splits)
next
  case terminator: True
  show ?thesis
  proof (cases "unat (term_offset (Cursor g)) < 15")
    case False
    with assms terminator show ?thesis
      by (auto simp: encode_def Let_def split: if_splits)
  next
    case True
    define h where "h = g\<lparr>Stats := (Stats g)\<lparr>encoded_characters := encoded_characters (Stats g) + 1\<rparr>,
        Cursor := (Cursor g)\<lparr>parity := (if c = 0x2C then parity (Cursor g) XOR c else parity (Cursor g)),
           term_buf := (term_buf (Cursor g))[unat (term_offset (Cursor g)) := 0]\<rparr>\<rparr>"
    from assms terminator True obtain g2 where t: "term_complete now h = Inr (False, g2)"
      and g': "Fix g' = Fix g2"
      by (auto simp: encode_def Let_def h_def split: if_splits sum.splits)
    have hh: "Fix h = Fix g" "Staging h = Staging g"
      "sentence_type (Cursor h) = sentence_type (Cursor g)"
      "UBX_message_type (Cursor h) = UBX_message_type (Cursor g)"
      "is_checksum_term (Cursor h) = is_checksum_term (Cursor g)"
      "gps_data_good (Cursor h) = gps_data_good (Cursor g)"
      "term_buf (Cursor h) = (term_buf (Cursor g))[unat (term_offset (Cursor g)) := 0]"
      "parity (Cursor h) = (if c = 0x2C then parity (Cursor g) XOR c else parity (Cursor g))"
      by (simp_all add: h_def)
    from term_complete_false [OF t] g' hh set_time_and_date_cong [OF hh(1-4)] terminator
    show ?thesis by auto
  qed
qed

lemma encode_false_position:
  assumes "encode now c g = Inr (False, g')"
  shows "latitude (Fix g') = latitude (Fix g)" "longitude (Fix g') = longitude (Fix g)"
    "altitude (Fix g') = altitude (Fix g)" "speed (Fix g') = speed (Fix g)"
    "course (Fix g') = course (Fix g)" "hdop (Fix g') = hdop (Fix g)"
    "numsats (Fix g') = numsats (Fix g)"
    "last_position_fix (Fix g') = last_position_fix (Fix g)"
  using encode_false [OF assms] by (auto simp: set_time_and_date_position)

lemma quiet_run_position:
  assumes "run g inp = Inr (rs, g')" and "True \<notin> set rs"
  shows "latitude (Fix g') = latitude (Fix g) \<and> longitude (Fix g') = longitude (Fix g)
     \<and> altitude (Fix g') = altitude (Fix g) \<and> speed (Fix g') = speed (Fix g)
     \<and> course (Fix g') = course (Fix g) \<and> hdop (Fix g') = hdop (Fix g)
     \<and> numsats (Fix g') = numsats (Fix g)
     \<and> last_position_fix (Fix g') = last_position_fix (Fix g)"
  using assms
proof (induction inp arbitrary: g rs)
  case Nil
  then show ?case by (simp add: run_Nil)
next
  case (Cons x xs)
  from Cons.prems obtain g1 ws where e: "encode (fst x) (snd x) g = Inr (False, g1)"
    and r: "run g1 xs = Inr (ws, g')" and q: "True \<notin> set ws"
    by (auto simp: run_Cons)
  from Cons.IH [OF r q] encode_false_position [OF e] show ?case by simp
qed

section \<open>The characters of one field\<close>

lemma c_str_terminated:
  "c_str (xs @ 0 # ys) = c_str xs"
  by (induction xs) (simp_all add: c_str_def)

lemma run_ordinary:
  assumes "set (map snd inp) \<inter> {0x2C, 0x0D, 0x0A, 0x2A, 0x24} = {}"
    and "length (term_buf (Cursor g)) = 15" and "unat (term_offset (Cursor g)) = k" and "k \<le> 14"
  shows "\<exists>g'. run g inp = Inr (replicate (length inp) False, g')
     \<and> term_buf (Cursor g') =
          take k (term_buf (Cursor g)) @ take (14 - k) (map snd inp)
            @ drop (min 14 (k + length inp)) (term_buf (Cursor g))
     \<and> unat (term_offset (Cursor g')) = min 14 (k + length inp)
     \<and> parity (Cursor g') =
          (if is_checksum_term (Cursor g) then parity (Cursor g)
           else parity (Cursor g) XOR xor_all (map snd inp))
     \<and> is_checksum_term (Cursor g') = is_checksum_term (Cursor g)
     \<and> Fix g' = Fix g \<and> Staging g' = Staging g \<and> Sats g' = Sats g"
  using assms
proof (induction inp arbitrary: g k)
  case Nil
  then show ?case by (simp add: run_Nil)
next
  case (Cons x xs)
  from Cons.prems(1) have c: "snd x \<noteq> 0x2C" "snd x \<noteq> 0x0D" "snd x \<noteq> 0x0A" "snd x \<noteq> 0x2A" "snd x \<noteq> 0x24"
    and rest: "set (map snd xs) \<inter> {0x2C, 0x0D, 0x0A, 0x2A, 0x24} = {}"
    by auto
  from encode_ordinary [OF c, of "fst x" g] obtain g1
    where e: "encode (fst x) (snd x) g = Inr (False, g1)" and f: "Fix g1 = Fix g"
      and sg: "Staging g1 = Staging g" and sa: "Sats g1 = Sats g"
      and ck: "is_checksum_term (Cursor g1) = is_checksum_term (Cursor g)"
      and p: "parity (Cursor g1) =
            (if is_checksum_term (Cursor g) then parity (Cursor g) else parity (Cursor g) XOR snd x)"
      and b: "term_buf (Cursor g1) =
            (if unat (term_offset (Cursor g)) < 14
             then (term_buf (Cursor g))[unat (term_offset (Cursor g)) := snd x]
             else term_buf (Cursor g))"
      and o: "term_offset (Cursor g1) =
            (if unat (term_offset (Cursor g)) < 14 then term_offset (Cursor g) + 1
             else term_offset (Cursor g))"
    by blast
  define k1 where "k1 = min 14 (k + 1)"
  from o Cons.prems(3,4) have o1: "unat (term_offset (Cursor g1)) = k1"
    by (auto simp: k1_def unat_word_ariths)
  from b Cons.prems(2) have l1: "length (term_buf (Cursor g1)) = 15" by simp
  have k1: "k1 \<le> 14" by (simp add: k1_def)
  from Cons.IH [OF rest l1 o1 k1] obtain g'
    where r: "run g1 xs = Inr (replicate (length xs) False, g')"
      and b': "term_buf (Cursor g') =
          take k1 (term_buf (Cursor g1)) @ take (14 - k1) (map snd xs)
            @ drop (min 14 (k1 + length xs)) (term_buf (Cursor g1))"
      and o': "unat (term_offset (Cursor g')) = min 14 (k1 + length xs)"
      and p': "parity (Cursor g') =
          (if is_checksum_term (Cursor g1) then parity (Cursor g1)
           else parity (Cursor g1) XOR xor_all (map snd xs))"
      and rest': "is_checksum_term (Cursor g') = is_checksum_term (Cursor g1)"
        "Fix g' = Fix g1" "Staging g' = Staging g1" "Sats g' = Sats g1"
    by blast
  have buf: "term_buf (Cursor g') =
          take k (term_buf (Cursor g)) @ take (14 - k) (map snd (x # xs))
            @ drop (min 14 (k + length (x # xs))) (term_buf (Cursor g))"
  proof (cases "k < 14")
    case True
    with Cons.prems(2,3) b have b1: "term_buf (Cursor g1) = (term_buf (Cursor g))[k := snd x]"
      by simp
    from True have kk: "k1 = Suc k" by (simp add: k1_def)
    from True Cons.prems(2) have "take (Suc k) ((term_buf (Cursor g))[k := snd x])
        = take k (term_buf (Cursor g)) @ [snd x]"
      by (simp add: take_Suc_conv_app_nth)
    moreover from True have "take (14 - k) (map snd (x # xs)) = snd x # take (14 - Suc k) (map snd xs)"
    proof -
      from True have "14 - k = Suc (14 - Suc k)" by simp
      then show ?thesis by simp
    qed
    moreover from True have "drop (min 14 (Suc k + length xs)) ((term_buf (Cursor g))[k := snd x])
        = drop (min 14 (k + length (x # xs))) (term_buf (Cursor g))"
      by (simp add: drop_update_cancel)
    ultimately show ?thesis using b' b1 kk by simp
  next
    case False
    with Cons.prems(4) have k: "k = 14" by simp
    with Cons.prems(3) b have b1: "term_buf (Cursor g1) = term_buf (Cursor g)" by simp
    from k have "k1 = 14" by (simp add: k1_def)
    with b' b1 k show ?thesis by simp
  qed
  have off: "unat (term_offset (Cursor g')) = min 14 (k + length (x # xs))"
    using o' by (auto simp: k1_def)
  have par: "parity (Cursor g') =
          (if is_checksum_term (Cursor g) then parity (Cursor g)
           else parity (Cursor g) XOR xor_all (map snd (x # xs)))"
    using p' p ck by (simp add: xor.assoc)
  from e r have "run g (x # xs) = Inr (replicate (length (x # xs)) False, g')"
    by (auto simp: run_Cons)
  with buf off par rest' ck f sg sa show ?case by simp
qed

section \<open>The satellite table\<close>





lemma dispatch_key:
  assumes "sentence_type (Cursor g) \<noteq> GPS_SENTENCE_PUBX"
  shows "dispatch now g =
     switch_term (COMBINE (sentence_code (sentence_type (Cursor g))) (ucast (term_number (Cursor g)))) now g"
  using assms by (simp add: dispatch_def Let_def)







section \<open>The parse does not read the published fix or the counters\<close>


























section \<open>Evaluating concrete runs\<close>

lemma list_update_numeral: "(x # xs)[numeral k := y] = x # xs[pred_numeral k := y]"
  by (simp add: numeral_eq_Suc)

lemmas eval_defs = run_def encode_def term_complete_def dispatch_def switch_term_def
  checksum_term_def checksum_of_def set_time_and_date_def promote_good_def sentence_of_term_def
  label_def ubx_label_def COMBINE_def UBX_MESSAGE_def
  GPRMC_TERM_def GPGGA_TERM_def GPGSA_TERM_def GNRMC_TERM_def GNGNS_TERM_def GNGSA_TERM_def
  GPGSV_TERM_def GLGSV_TERM_def GPZDA_TERM_def PUBX_TERM_def
  c_str_def bytes_def gpsisdigit_def from_hex_def gpsatol_def parse_decimal_def
  parse_degrees_def TinyGPS_def zero_memory_def stamp_def at_clock_def store_sat_def
  clear_slots_def atoi_def isspace_def strncpy_def returned_def final_def
  Let_def list_update_numeral

lemma length_15:
  assumes "length (xs :: 'a list) = 15"
  obtains b0 b1 b2 b3 b4 b5 b6 b7 b8 b9 b10 b11 b12 b13 b14
  where "xs = [b0, b1, b2, b3, b4, b5, b6, b7, b8, b9, b10, b11, b12, b13, b14]"
proof -
  from assms have "\<exists>b0 b1 b2 b3 b4 b5 b6 b7 b8 b9 b10 b11 b12 b13 b14.
      xs = [b0, b1, b2, b3, b4, b5, b6, b7, b8, b9, b10, b11, b12, b13, b14]"
    by (simp add: eval_nat_numeral length_Suc_conv) blast
  with that show thesis by blast
qed

section \<open>The claims\<close>

text \<open>
  C5. In a sentence \<^verbatim>\<open>$body*cs\<close>, whose body holds no sentence start, no checksum
  marker and no line end, and whose checksum field holds ordinary characters only: once
  the checksum field has arrived, and so when its terminator has the checksum term
  evaluated, \<^verbatim>\<open>_parity\<close> is the exclusive-or of the characters of the body
  (separator commas included; the two markers and the checksum field's characters
  excluded), whatever state the parser was in before the sentence.
\<close>

theorem parity_is_xor_of_body:
  assumes chars: "map snd inp = 0x24 # body @ 0x2A # cs"
    and body: "set body \<inter> {0x24, 0x2A, 0x0D, 0x0A} = {}"
    and cs: "set cs \<inter> {0x2C, 0x0D, 0x0A, 0x2A, 0x24} = {}"
    and ret: "run g inp = Inr (rs, g')"
  shows "parity (Cursor g') = xor_all body \<and> is_checksum_term (Cursor g')"
proof -
  from chars obtain x0 r0 where i0: "inp = x0 # r0" and x0: "snd x0 = 0x24"
    and m0: "map snd r0 = body @ 0x2A # cs"
    by (rule map_snd_eq_Cons)
  from m0 obtain ib r1 where i1: "r0 = ib @ r1" and mb: "map snd ib = body"
    and m1: "map snd r1 = 0x2A # cs"
    by (rule map_snd_eq_append)
  from m1 obtain x1 ic where i2: "r1 = x1 # ic" and x1: "snd x1 = 0x2A" and mc: "map snd ic = cs"
    by (rule map_snd_eq_Cons)
  define g0 where "g0 = snd (projr (encode (fst x0) 0x24 g))"
  have e0: "encode (fst x0) 0x24 g = Inr (False, g0)"
    and k0: "\<not> is_checksum_term (Cursor g0)" and p0: "parity (Cursor g0) = 0"
    by (simp_all add: g0_def encode_dollar)
  from ret i0 x0 e0 obtain w0 where r0: "run g0 r0 = Inr (w0, g')"
    by (auto simp: run_Cons)
  from r0 i1 obtain wb gb w1 where rb: "run g0 ib = Inr (wb, gb)" and r1: "run gb r1 = Inr (w1, g')"
    by (auto simp: run_append)
  from run_body [OF rb k0] body mb p0
  have kb: "\<not> is_checksum_term (Cursor gb)" and pb: "parity (Cursor gb) = xor_all body"
    by simp_all
  from r1 i2 x1 obtain v1 gs wc where es: "encode (fst x1) 0x2A gb = Inr (v1, gs)"
    and rc: "run gs ic = Inr (wc, g')"
    by (auto simp: run_Cons)
  note s = encode_star [OF es kb]
  from run_checksum_chars [OF rc s(3)] cs mc s(4) pb show ?thesis by simp
qed

theorem parity_is_xor_of_body_witness:
  "\<exists>rs g'. run (TinyGPS zero_memory) (at_clock 0 (bytes ''$GPRMC,1,A*5'')) = Inr (rs, g')
     \<and> parity (Cursor g') = xor_all (bytes ''GPRMC,1,A'') \<and> is_checksum_term (Cursor g')"
proof -
  obtain rs g' where r: "run (TinyGPS zero_memory) (at_clock 0 (bytes ''$GPRMC,1,A*5'')) = Inr (rs, g')"
    by (simp add: eval_defs)
  have "parity (Cursor g') = xor_all (bytes ''GPRMC,1,A'') \<and> is_checksum_term (Cursor g')"
    by (rule parity_is_xor_of_body [OF _ _ _ r, where cs = "bytes ''5''"])
       (simp_all add: at_clock_def bytes_def comp_def)
  with r show ?thesis by blast
qed

text \<open>
  C1. A sentence \<^verbatim>\<open>$body*h1h2\<close> closed by CR or LF whose two checksum characters do
  not decode to the parity of the body leaves every member of the published fix as it
  was before the sentence; every call of the sentence returns false, the closing one
  included, and the failure is counted once.
\<close>

theorem failed_checksum_leaves_fix:
  assumes chars: "map snd inp = 0x24 # body @ [0x2A, h1, h2, eol]"
    and body: "set body \<inter> {0x24, 0x2A, 0x0D, 0x0A} = {}"
    and h1: "h1 \<notin> {0x2C, 0x0D, 0x0A, 0x2A, 0x24}"
    and h2: "h2 \<notin> {0x2C, 0x0D, 0x0A, 0x2A, 0x24}"
    and eol: "eol = 0x0D \<or> eol = 0x0A"
    and mismatch: "checksum_of [h1, h2] \<noteq> xor_all body"
    and len: "length (term_buf (Cursor g)) = 15"
    and ret: "run g inp = Inr (rs, g')"
  shows "Fix g' = Fix g \<and> rs = replicate (length inp) False
     \<and> failed_checksum (Stats g') = failed_checksum (Stats g) + 1"
proof -
  from chars obtain x0 r0 where i0: "inp = x0 # r0" and x0: "snd x0 = 0x24"
    and m0: "map snd r0 = body @ [0x2A, h1, h2, eol]"
    by (rule map_snd_eq_Cons)
  from m0 obtain ib r1 where i1: "r0 = ib @ r1" and mb: "map snd ib = body"
    and m1: "map snd r1 = [0x2A, h1, h2, eol]"
    by (rule map_snd_eq_append)
  from m1 obtain xs y1 y2 ye where i2: "r1 = [xs, y1, y2, ye]" and xs: "snd xs = 0x2A"
    and y1: "snd y1 = h1" and y2: "snd y2 = h2" and ye: "snd ye = eol"
    by (auto simp: map_eq_Cons_conv)
  define g0 where "g0 = snd (projr (encode (fst x0) 0x24 g))"
  have e0: "encode (fst x0) 0x24 g = Inr (False, g0)" and f0: "Fix g0 = Fix g"
    and k0: "\<not> is_checksum_term (Cursor g0)" and p0: "parity (Cursor g0) = 0"
    and s0: "failed_checksum (Stats g0) = failed_checksum (Stats g)"
    by (simp_all add: g0_def encode_dollar)
  from ret i0 x0 e0 obtain w0 where r0: "run g0 r0 = Inr (w0, g')" and rs0: "rs = False # w0"
    by (auto simp: run_Cons)
  from r0 i1 obtain wb gb w1 where rb: "run g0 ib = Inr (wb, gb)" and r1: "run gb r1 = Inr (w1, g')"
    and w0: "w0 = wb @ w1"
    by (auto simp: run_append)
  from run_body [OF rb k0] body mb p0 f0 s0
  have fb: "Fix gb = Fix g" and kb: "\<not> is_checksum_term (Cursor gb)"
    and pb: "parity (Cursor gb) = xor_all body" and wb: "wb = replicate (length ib) False"
    and sb: "failed_checksum (Stats gb) = failed_checksum (Stats g)"
    by simp_all
  from run_length [OF rb] len e0 have lb: "length (term_buf (Cursor gb)) = 15"
    by (simp add: encode_length)
  from r1 i2 obtain v1 gs w2 where es: "encode (fst xs) (snd xs) gb = Inr (v1, gs)"
    and r2: "run gs [y1, y2, ye] = Inr (w2, g')" and w1: "w1 = v1 # w2"
    by (auto simp: run_Cons)
  note s = encode_star [OF es [unfolded xs] kb]
  from encode_length [OF es] lb have ls: "length (term_buf (Cursor gs)) = 15" by simp
  from r2 run_append [of gs "[y1, y2]" "[ye]" w2 g']
  obtain wc gc we where rc: "run gs [y1, y2] = Inr (wc, gc)" and re: "run gc [ye] = Inr (we, g')"
    and w2: "w2 = wc @ we"
    by auto
  from two_checksum_chars [OF rc s(3) s(5) ls] h1 h2 y1 y2
  have fc: "Fix gc = Fix gs" and kc: "is_checksum_term (Cursor gc)"
    and pc: "parity (Cursor gc) = parity (Cursor gs)" and wc: "wc = [False, False]"
    and oc: "term_offset (Cursor gc) = 2"
    and sc: "failed_checksum (Stats gc) = failed_checksum (Stats gs)"
    and cc: "checksum_of ((term_buf (Cursor gc))[2 := 0]) = checksum_of [h1, h2]"
    by simp_all
  from cc oc pc s(4) pb mismatch
  have "checksum_of ((term_buf (Cursor gc))[unat (term_offset (Cursor gc)) := 0]) \<noteq> parity (Cursor gc)"
    by simp
  from encode_checksum_mismatch [OF kc _ _ this, of eol "fst ye"] eol oc ye
  obtain ge where ee: "encode (fst ye) (snd ye) gc = Inr (False, ge)" and fe: "Fix ge = Fix gc"
    and se: "failed_checksum (Stats ge) = failed_checksum (Stats gc) + 1"
    by auto
  from re ee have ge: "g' = ge" and we: "we = [False]"
    by (auto simp: run_Cons run_Nil)
  from ge fe fc s(2) fb have "Fix g' = Fix g" by simp
  moreover from rs0 w0 wb w1 s(1) w2 wc we i0 i1 i2
  have "rs = replicate (length inp) False"
    by (simp add: replicate_app_Cons_same)
  moreover from ge se sc s(6) sb
  have "failed_checksum (Stats g') = failed_checksum (Stats g) + 1" by simp
  ultimately show ?thesis by simp
qed

theorem failed_checksum_leaves_fix_witness:
  "\<exists>rs g'. run (TinyGPS zero_memory) (at_clock 0 (bytes ''$GPRMC,1,A*00'' @ [0x0D])) = Inr (rs, g')
     \<and> Fix g' = Fix (TinyGPS zero_memory) \<and> rs = replicate 14 False
     \<and> failed_checksum (Stats g') = 1"
proof -
  obtain rs g'
    where r: "run (TinyGPS zero_memory) (at_clock 0 (bytes ''$GPRMC,1,A*00'' @ [0x0D])) = Inr (rs, g')"
    by (simp add: eval_defs)
  have "Fix g' = Fix (TinyGPS zero_memory)
      \<and> rs = replicate (length (at_clock 0 (bytes ''$GPRMC,1,A*00'' @ [0x0D]))) False
      \<and> failed_checksum (Stats g') = failed_checksum (Stats (TinyGPS zero_memory)) + 1"
    by (rule failed_checksum_leaves_fix
          [OF _ _ _ _ _ _ _ r, where body = "bytes ''GPRMC,1,A''" and ?h1.0 = "0x30"
            and ?h2.0 = "0x30" and eol = "0x0D"])
       (simp_all add: at_clock_def bytes_def TinyGPS_def zero_memory_def checksum_of_def
          from_hex_def)
  then have "Fix g' = Fix (TinyGPS zero_memory) \<and> rs = replicate 14 False
      \<and> failed_checksum (Stats g') = 1"
    by (simp add: at_clock_def bytes_def TinyGPS_def zero_memory_def eval_nat_numeral)
  with r show ?thesis by blast
qed

text \<open>
  C3. When the checksum term matches the accumulated parity, \<^verbatim>\<open>term_complete\<close>
  returns the data-good flag and touches the published fix only. With the flag false,
  an RMC or PUBX,04 sentence still promotes the staged time, date and time stamp, and a
  ZDA sentence the staged time, day, month, year and both stamps. With the flag true it
  returns true, and RMC promotes time, date, latitude, longitude, speed and course, GGA
  promotes altitude, time, latitude, longitude, numsats and hdop, and PUBX,00 promotes
  time, latitude, longitude, speed, course, altitude, numsats and hdop, each together
  with the staged time and position stamps.
\<close>

theorem matching_checksum_promotes:
  assumes "is_checksum_term (Cursor g)"
    and "checksum_of (term_buf (Cursor g)) = parity (Cursor g)"
  shows "\<exists>g'. term_complete now g = Inr (gps_data_good (Cursor g), g')
     \<and> Staging g' = Staging g \<and> Cursor g' = Cursor g \<and> Sats g' = Sats g
     \<and> (\<not> gps_data_good (Cursor g)
          \<and> (sentence_type (Cursor g) = GPS_SENTENCE_GPRMC
               \<or> sentence_type (Cursor g) = GPS_SENTENCE_PUBX \<and> UBX_message_type (Cursor g) = 4)
          \<longrightarrow> Fix g' = (Fix g)\<lparr>time := new_time (Staging g), date := new_date (Staging g),
                                  last_time_fix := new_time_fix (Staging g)\<rparr>)
     \<and> (\<not> gps_data_good (Cursor g) \<and> sentence_type (Cursor g) = GPS_SENTENCE_GPZDA
          \<longrightarrow> Fix g' = (Fix g)\<lparr>time := new_time (Staging g),
                                  last_time_fix := new_time_fix (Staging g),
                                  day := new_day (Staging g), month := new_month (Staging g),
                                  year := new_year (Staging g),
                                  last_date_fix := new_date_fix (Staging g)\<rparr>)
     \<and> (gps_data_good (Cursor g) \<and> sentence_type (Cursor g) = GPS_SENTENCE_GPRMC
          \<longrightarrow> Fix g' = (Fix g)\<lparr>time := new_time (Staging g), date := new_date (Staging g),
                                  latitude := new_latitude (Staging g),
                                  longitude := new_longitude (Staging g),
                                  speed := new_speed (Staging g),
                                  course := new_course (Staging g),
                                  last_time_fix := new_time_fix (Staging g),
                                  last_position_fix := new_position_fix (Staging g)\<rparr>)
     \<and> (gps_data_good (Cursor g) \<and> sentence_type (Cursor g) = GPS_SENTENCE_GPGGA
          \<longrightarrow> Fix g' = (Fix g)\<lparr>altitude := new_altitude (Staging g),
                                  time := new_time (Staging g),
                                  latitude := new_latitude (Staging g),
                                  longitude := new_longitude (Staging g),
                                  numsats := new_numsats (Staging g),
                                  hdop := new_hdop (Staging g),
                                  last_time_fix := new_time_fix (Staging g),
                                  last_position_fix := new_position_fix (Staging g)\<rparr>)
     \<and> (gps_data_good (Cursor g) \<and> sentence_type (Cursor g) = GPS_SENTENCE_PUBX
            \<and> UBX_message_type (Cursor g) = 0
          \<longrightarrow> Fix g' = (Fix g)\<lparr>time := new_time (Staging g),
                                  latitude := new_latitude (Staging g),
                                  longitude := new_longitude (Staging g),
                                  speed := new_speed (Staging g),
                                  course := new_course (Staging g),
                                  altitude := new_altitude (Staging g),
                                  numsats := new_numsats (Staging g),
                                  hdop := new_hdop (Staging g),
                                  last_time_fix := new_time_fix (Staging g),
                                  last_position_fix := new_position_fix (Staging g)\<rparr>)"
  using assms
  by (simp add: term_complete_def checksum_term_def set_time_and_date_def promote_good_def Let_def)


theorem matching_checksum_promotes_witness:
  "\<exists>g'. term_complete 7
          (zero_memory\<lparr>Staging := (Staging zero_memory)\<lparr>new_time := 4510300, new_speed := 67\<rparr>,
                        Cursor := (Cursor zero_memory)\<lparr>is_checksum_term := True,
                          term_buf := [0x30, 0x30, 0, 0, 0, 0, 0, 0, 0, 0, 0, 0, 0, 0, 0],
                          sentence_type := GPS_SENTENCE_GPRMC, gps_data_good := True\<rparr>\<rparr>)
        = Inr (True, g')
      \<and> time (Fix g') = 4510300 \<and> speed (Fix g') = 67 \<and> altitude (Fix g') = 0"
  using matching_checksum_promotes
    [of "zero_memory\<lparr>Staging := (Staging zero_memory)\<lparr>new_time := 4510300, new_speed := 67\<rparr>,
                        Cursor := (Cursor zero_memory)\<lparr>is_checksum_term := True,
                          term_buf := [0x30, 0x30, 0, 0, 0, 0, 0, 0, 0, 0, 0, 0, 0, 0, 0],
                          sentence_type := GPS_SENTENCE_GPRMC, gps_data_good := True\<rparr>\<rparr>" 7]
  by (auto simp: zero_memory_def checksum_of_def from_hex_def)

text \<open>
  C2, as amended. A call of \<^verbatim>\<open>encode\<close> that returns false leaves latitude,
  longitude, altitude, speed, course, hdop, numsats and the position stamp as they were.
  It leaves the whole published fix as it was unless it closes a checksum term that
  matches the parity while the data-good flag is false: then the fix is what the
  time-and-date promotion of lines 224-244 makes of it (time, date and time stamp for RMC
  and PUBX,04; time, day, month, year and both stamps for ZDA; nothing for another
  sentence).
\<close>

theorem false_call_changes_clock_only:
  assumes "encode now c g = Inr (False, g')"
  shows "latitude (Fix g') = latitude (Fix g) \<and> longitude (Fix g') = longitude (Fix g)
     \<and> altitude (Fix g') = altitude (Fix g) \<and> speed (Fix g') = speed (Fix g)
     \<and> course (Fix g') = course (Fix g) \<and> hdop (Fix g') = hdop (Fix g)
     \<and> numsats (Fix g') = numsats (Fix g)
     \<and> last_position_fix (Fix g') = last_position_fix (Fix g)
     \<and> (Fix g' = Fix g
         \<or> (is_checksum_term (Cursor g) \<and> (c = 0x2C \<or> c = 0x0D \<or> c = 0x0A \<or> c = 0x2A)
            \<and> \<not> gps_data_good (Cursor g)
            \<and> checksum_of ((term_buf (Cursor g))[unat (term_offset (Cursor g)) := 0])
                = (if c = 0x2C then parity (Cursor g) XOR c else parity (Cursor g))
            \<and> Fix g' = Fix (set_time_and_date g)))"
  using encode_false [OF assms] encode_false_position [OF assms] by simp

theorem false_call_changes_clock_only_witness:
  "\<exists>g g'. final (run (TinyGPS zero_memory) (at_clock 7 (bytes ''$GPRMC,045103.000,V*00''))) = Some g
     \<and> encode 7 0x0D g = Inr (False, g')
     \<and> latitude (Fix g') = latitude (Fix g) \<and> speed (Fix g') = speed (Fix g)
     \<and> Fix g' = Fix (set_time_and_date g) \<and> time (Fix g) = 0xFFFFFFFF
     \<and> time (Fix g') = 4510300"
proof -
  obtain g where g: "final (run (TinyGPS zero_memory) (at_clock 7 (bytes ''$GPRMC,045103.000,V*00''))) = Some g"
    and k: "is_checksum_term (Cursor g)" and t: "time (Fix g) = 0xFFFFFFFF"
    and n: "new_time (Staging g) = 4510300" and st: "sentence_type (Cursor g) = GPS_SENTENCE_GPRMC"
    and e: "\<exists>g'. encode 7 0x0D g = Inr (False, g') \<and> Fix g' \<noteq> Fix g"
    by (simp add: eval_defs GPS_INVALID_TIME_def)
  from e obtain g' where e': "encode 7 0x0D g = Inr (False, g')" and d: "Fix g' \<noteq> Fix g"
    by blast
  from false_call_changes_clock_only [OF e'] d
  have "latitude (Fix g') = latitude (Fix g)" "speed (Fix g') = speed (Fix g)"
    "Fix g' = Fix (set_time_and_date g)"
    by (simp_all add: set_time_and_date_position)
  moreover from this(3) n st have "time (Fix g') = 4510300"
    by (simp add: set_time_and_date_def Let_def)
  ultimately show ?thesis using g e' t by blast
qed

text \<open>
  The claim as stated fails: no call of this run returns true, yet the run changes the
  published time from its sentinel to 4510300.
\<close>

theorem false_call_mutates_time:
  "map_option set
        (returned (run (TinyGPS zero_memory) (at_clock 7 (bytes ''$GPRMC,045103.000,V*00'' @ [0x0D]))))
     = Some {False}
   \<and> map_option (time \<circ> Fix)
        (final (run (TinyGPS zero_memory) (at_clock 7 (bytes ''$GPRMC,045103.000,V*00'' @ [0x0D]))))
     = Some 4510300
   \<and> time (Fix (TinyGPS zero_memory)) = 4294967295"
  by (simp add: eval_defs GPS_INVALID_TIME_def)

text \<open>
  C9, as amended. Right after construction time and date hold their sentinels and
  \<^verbatim>\<open>get_datetime\<close> reports the age \<^verbatim>\<open>GPS_INVALID_AGE\<close>. For as long as no
  call of \<^verbatim>\<open>encode\<close> has returned true (the empty run included), latitude,
  longitude, course, altitude, speed, hdop and numsats hold their sentinels and
  \<^verbatim>\<open>get_position\<close> reports the age \<^verbatim>\<open>GPS_INVALID_AGE\<close>.
\<close>

theorem sentinels_until_validated:
  assumes "run (TinyGPS m) inp = Inr (rs, g)" and "True \<notin> set rs"
  shows "time (Fix (TinyGPS m)) = GPS_INVALID_TIME \<and> date (Fix (TinyGPS m)) = GPS_INVALID_DATE
     \<and> get_datetime now0 (TinyGPS m) = (GPS_INVALID_DATE, GPS_INVALID_TIME, GPS_INVALID_AGE)
     \<and> latitude (Fix g) = GPS_INVALID_ANGLE \<and> longitude (Fix g) = GPS_INVALID_ANGLE
     \<and> course (Fix g) = GPS_INVALID_ANGLE \<and> altitude (Fix g) = GPS_INVALID_ALTITUDE
     \<and> speed (Fix g) = GPS_INVALID_SPEED \<and> hdop (Fix g) = GPS_INVALID_HDOP
     \<and> numsats (Fix g) = GPS_INVALID_SATELLITES
     \<and> get_position now g = (GPS_INVALID_ANGLE, GPS_INVALID_ANGLE, GPS_INVALID_AGE)"
  using quiet_run_position [OF assms]
  by (simp add: TinyGPS_def get_position_def get_datetime_def fix_age_def)

theorem sentinels_until_validated_witness:
  "\<exists>rs g. run (TinyGPS zero_memory) (at_clock 7 (bytes ''$GPRMC,045103.000,V,,,,,,,030913*24'' @ [0x0D]))
       = Inr (rs, g)
     \<and> True \<notin> set rs
     \<and> latitude (Fix g) = GPS_INVALID_ANGLE \<and> longitude (Fix g) = GPS_INVALID_ANGLE
     \<and> course (Fix g) = GPS_INVALID_ANGLE \<and> altitude (Fix g) = GPS_INVALID_ALTITUDE
     \<and> speed (Fix g) = GPS_INVALID_SPEED \<and> hdop (Fix g) = GPS_INVALID_HDOP
     \<and> numsats (Fix g) = GPS_INVALID_SATELLITES
     \<and> get_position 9 g = (GPS_INVALID_ANGLE, GPS_INVALID_ANGLE, GPS_INVALID_AGE)"
proof -
  obtain rs g
    where r: "run (TinyGPS zero_memory) (at_clock 7 (bytes ''$GPRMC,045103.000,V,,,,,,,030913*24'' @ [0x0D]))
       = Inr (rs, g)" and q: "True \<notin> set rs"
    by (simp add: eval_defs)
  from sentinels_until_validated [OF r q, of 0 9] r q show ?thesis by blast
qed

text \<open>
  The claim as stated fails for time, date and the age of \<^verbatim>\<open>get_datetime\<close>: no
  call of this run returns true, yet afterwards they are 4510300, 30913 and 2.
\<close>

theorem datetime_valid_before_validation:
  "map_option set
        (returned (run (TinyGPS zero_memory)
           (at_clock 7 (bytes ''$GPRMC,045103.000,V,,,,,,,030913*24'' @ [0x0D]))))
     = Some {False}
   \<and> map_option (get_datetime 9)
        (final (run (TinyGPS zero_memory) (at_clock 7 (bytes ''$GPRMC,045103.000,V,,,,,,,030913*24'' @ [0x0D]))))
     = Some (30913, 4510300, 2)
   \<and> GPS_INVALID_DATE = 0 \<and> GPS_INVALID_TIME = 4294967295 \<and> GPS_INVALID_AGE = 4294967295"
  by (simp add: eval_defs get_datetime_def fix_age_def GPS_INVALID_TIME_def GPS_INVALID_DATE_def
       GPS_INVALID_AGE_def GPS_INVALID_FIX_TIME_def)

text \<open>
  C4. Fed to a freshly constructed parser, whatever its memory held before and whatever
  the clock reads, the sentence
  \<^verbatim>\<open>$GPRMC,045103.000,A,3014.1984,N,09749.2872,W,0.67,161.46,030913,,,A*7C\<close> followed by
  CR or LF runs without fault, returns true on that last character, and publishes
  time 4510300, latitude 30236640, longitude -97821453, speed 67, course 16146 and
  date 30913.
\<close>

theorem known_good_rmc_sentence:
  assumes len: "length (term_buf (Cursor m)) = 15" and eol: "eol = 0x0D \<or> eol = 0x0A"
  shows "\<exists>rs g. run (TinyGPS m)
            (stamp clock (bytes ''$GPRMC,045103.000,A,3014.1984,N,09749.2872,W,0.67,161.46,030913,,,A*7C'' @ [eol]))
          = Inr (rs, g)
     \<and> last rs \<and> time (Fix g) = 4510300 \<and> latitude (Fix g) = 30236640
     \<and> sint (longitude (Fix g)) = - 97821453 \<and> speed (Fix g) = 67
     \<and> course (Fix g) = 16146 \<and> date (Fix g) = 30913"
proof -
  from len obtain b0 b1 b2 b3 b4 b5 b6 b7 b8 b9 b10 b11 b12 b13 b14
    where buf: "term_buf (Cursor m) = [b0, b1, b2, b3, b4, b5, b6, b7, b8, b9, b10, b11, b12, b13, b14]"
    by (rule length_15)
  from eol show ?thesis
  proof
    assume "eol = 0x0D"
    then show ?thesis by (simp add: eval_defs buf)
  next
    assume "eol = 0x0A"
    then show ?thesis by (simp add: eval_defs buf)
  qed
qed


theorem known_good_rmc_sentence_witness:
  "\<exists>rs g. run (TinyGPS zero_memory)
            (stamp of_nat (bytes ''$GPRMC,045103.000,A,3014.1984,N,09749.2872,W,0.67,161.46,030913,,,A*7C'' @ [0x0D]))
          = Inr (rs, g)
     \<and> last rs \<and> time (Fix g) = 4510300 \<and> latitude (Fix g) = 30236640
     \<and> sint (longitude (Fix g)) = - 97821453 \<and> speed (Fix g) = 67
     \<and> course (Fix g) = 16146 \<and> date (Fix g) = 30913"
  using known_good_rmc_sentence [of zero_memory "0x0D" of_nat]
  by (simp add: zero_memory_def)



text \<open>
  C10. The claim is that every write to the satellite table stays within its 24 entries.
  The code has no such check: the fourth GLGSV message of a sequence sets the write
  cursor to 24, and its first strength term then writes entry 24.
\<close>

theorem glgsv_fourth_message_out_of_bounds:
  "run (TinyGPS zero_memory) (at_clock 0 (bytes ''$GLGSV,4,4,13,88,10,200,30*57'' @ [0x0D, 0x0A]))
     = Inl (OutOfBounds 24)"
  by (simp add: eval_defs)

text \<open>
  C7. From the start of a field, a stream of ordinary characters (no comma, CR, LF,
  asterisk or dollar sign) is accepted without fault and every call returns false. The
  buffer then begins with the first 14 of them and the offset is their number, at most
  14; the terminator's NUL at that offset leaves the C string of those 14 characters for
  decoding, so every later character is dropped from it. Outside the checksum field all
  of the characters, the dropped ones included, are folded into the parity; inside it
  none is.
\<close>

theorem field_buffer_keeps_first_14:
  assumes ord: "set (map snd inp) \<inter> {0x2C, 0x0D, 0x0A, 0x2A, 0x24} = {}"
    and len: "length (term_buf (Cursor g)) = 15" and off: "term_offset (Cursor g) = 0"
  shows "\<exists>g'. run g inp = Inr (replicate (length inp) False, g')
     \<and> unat (term_offset (Cursor g')) = min 14 (length inp)
     \<and> take (unat (term_offset (Cursor g'))) (term_buf (Cursor g')) = take 14 (map snd inp)
     \<and> length (term_buf (Cursor g')) = 15
     \<and> c_str ((term_buf (Cursor g'))[unat (term_offset (Cursor g')) := 0])
          = c_str (take 14 (map snd inp))
     \<and> parity (Cursor g') =
          (if is_checksum_term (Cursor g) then parity (Cursor g)
           else parity (Cursor g) XOR xor_all (map snd inp))"
proof -
  from off have o: "unat (term_offset (Cursor g)) = 0" by simp
  from run_ordinary [OF ord len o] obtain g'
    where r: "run g inp = Inr (replicate (length inp) False, g')"
      and b: "term_buf (Cursor g') =
          take 14 (map snd inp) @ drop (min 14 (length inp)) (term_buf (Cursor g))"
      and o': "unat (term_offset (Cursor g')) = min 14 (length inp)"
      and p: "parity (Cursor g') =
          (if is_checksum_term (Cursor g) then parity (Cursor g)
           else parity (Cursor g) XOR xor_all (map snd inp))"
    by auto
  define n where "n = min 14 (length inp)"
  define A where "A = take 14 (map snd inp)"
  have ln: "length A = n" by (simp add: n_def A_def)
  from len have "drop n (term_buf (Cursor g)) \<noteq> []" by (simp add: n_def)
  then obtain y ys where d: "drop n (term_buf (Cursor g)) = y # ys"
    by (cases "drop n (term_buf (Cursor g))") auto
  from b d have b2: "term_buf (Cursor g') = A @ y # ys"
    by (simp add: n_def A_def)
  from b2 ln have "(term_buf (Cursor g'))[n := 0] = A @ 0 # ys"
    by (simp add: list_update_append)
  then have cs: "c_str ((term_buf (Cursor g'))[n := 0]) = c_str A"
    by (simp add: c_str_terminated)
  from b2 ln have tk: "take n (term_buf (Cursor g')) = A" by simp
  from run_length [OF r] len have l': "length (term_buf (Cursor g')) = 15" by simp
  from r o' tk l' cs p show ?thesis by (auto simp: n_def A_def)
qed

theorem field_buffer_keeps_first_14_witness:
  "\<exists>g'. run (TinyGPS zero_memory) (at_clock 0 (bytes ''0123456789ABCDEFGH''))
        = Inr (replicate 18 False, g')
     \<and> unat (term_offset (Cursor g')) = 14
     \<and> take 14 (term_buf (Cursor g')) = bytes ''0123456789ABCD''
     \<and> c_str ((term_buf (Cursor g'))[14 := 0]) = bytes ''0123456789ABCD''
     \<and> parity (Cursor g') = xor_all (bytes ''0123456789ABCDEFGH'')"
proof -
  have h: "set (map snd (at_clock 0 (bytes ''0123456789ABCDEFGH''))) \<inter> {0x2C, 0x0D, 0x0A, 0x2A, 0x24} = {}"
    "length (term_buf (Cursor (TinyGPS zero_memory))) = 15"
    "term_offset (Cursor (TinyGPS zero_memory)) = 0"
    by (simp_all add: at_clock_def bytes_def TinyGPS_def zero_memory_def comp_def)
  have m: "length (at_clock 0 (bytes ''0123456789ABCDEFGH'')) = 18"
    "take 14 (map snd (at_clock 0 (bytes ''0123456789ABCDEFGH''))) = bytes ''0123456789ABCD''"
    "map snd (at_clock 0 (bytes ''0123456789ABCDEFGH'')) = bytes ''0123456789ABCDEFGH''"
    "c_str (bytes ''0123456789ABCD'') = bytes ''0123456789ABCD''"
    "\<not> is_checksum_term (Cursor (TinyGPS zero_memory))"
    "parity (Cursor (TinyGPS zero_memory)) = 0"
    by (simp_all add: at_clock_def bytes_def comp_def c_str_def TinyGPS_def zero_memory_def)
  from field_buffer_keeps_first_14 [OF h] obtain g'
    where r: "run (TinyGPS zero_memory) (at_clock 0 (bytes ''0123456789ABCDEFGH''))
        = Inr (replicate (length (at_clock 0 (bytes ''0123456789ABCDEFGH''))) False, g')"
      and o: "unat (term_offset (Cursor g')) = min 14 (length (at_clock 0 (bytes ''0123456789ABCDEFGH'')))"
      and t: "take (unat (term_offset (Cursor g'))) (term_buf (Cursor g'))
        = take 14 (map snd (at_clock 0 (bytes ''0123456789ABCDEFGH'')))"
      and c: "c_str ((term_buf (Cursor g'))[unat (term_offset (Cursor g')) := 0])
          = c_str (take 14 (map snd (at_clock 0 (bytes ''0123456789ABCDEFGH''))))"
      and p: "parity (Cursor g') =
          (if is_checksum_term (Cursor (TinyGPS zero_memory)) then parity (Cursor (TinyGPS zero_memory))
           else parity (Cursor (TinyGPS zero_memory))
                  XOR xor_all (map snd (at_clock 0 (bytes ''0123456789ABCDEFGH''))))"
    by blast
  from r have r': "run (TinyGPS zero_memory) (at_clock 0 (bytes ''0123456789ABCDEFGH''))
        = Inr (replicate 18 False, g')"
    by (simp only: m(1))
  from o have o': "unat (term_offset (Cursor g')) = 14"
    by (simp only: m(1))
  from t have t': "take 14 (term_buf (Cursor g')) = bytes ''0123456789ABCD''"
    by (simp only: o' m(2))
  from c have c': "c_str ((term_buf (Cursor g'))[14 := 0]) = bytes ''0123456789ABCD''"
    by (simp only: o' m(2) m(4))
  from p m(5) have p': "parity (Cursor g') = xor_all (bytes ''0123456789ABCDEFGH'')"
    by (simp only: m(3) m(6) if_False xor.left_neutral)
  from r' o' t' c' p' show ?thesis by blast
qed




end
